theory Spec2Isabelle
  imports Main "HOL-Library.Word"
begin

section \<open>The release build of the tag database: \<open>create-release/index.ts\<close>\<close>

text \<open>
  Strings of the program are modelled as \<^typ>\<open>string\<close>: one \<^typ>\<open>char\<close> stands for one
  code unit of a JavaScript string, so \<^const>\<open>length\<close> is the program's \<open>.length\<close>.
  All string literals of the source are ASCII.
\<close>

subsection \<open>Severities, contexts and the annotation logger \<open>ActionLogger\<close>\<close>

text \<open>
  \<open>keyof Logger\<close>: the three method names \<open>'info' | 'warn' | 'error'\<close>, the keys of the
  two record literals \<open>map\<close> and \<open>setFailed\<close> of the class.
\<close>

datatype LoggerKey = Info | Warn | Error

type_synonym NamespaceName = string

text \<open>
  Modelled from the spec: the classes \<open>TagRecord\<close>, \<open>TagLine\<close> and \<open>Context\<close> of
  \<open>shared/\<close> are not part of the sources at hand. The spec describes a tag line as
  carrying the record and its originating line, and a context as a diagnostic handle bound
  to (namespace, raw tag text, source line). Only the fields that \<open>index.ts\<close> reads or
  writes are kept: \<open>tagLine.record\<close>, \<open>tagLine.line\<close>, \<open>context.namespace.name\<close>,
  \<open>context.raw\<close> and \<open>context.line\<close>.
\<close>

record TagRecord =
  rec_namespace :: NamespaceName

record TagLine =
  tl_record :: TagRecord
  tl_line :: nat

record Context =
  ctx_namespace :: NamespaceName
  ctx_raw :: "string option"
  ctx_line :: "nat option"

definition new_Context :: "TagRecord \<Rightarrow> string \<Rightarrow> Context" where
  "new_Context r raw_tag =
     \<lparr>ctx_namespace = rec_namespace r, ctx_raw = Some raw_tag, ctx_line = None\<rparr>"

text \<open>The three annotation commands of \<open>@actions/core\<close> that \<open>map\<close> routes to.\<close>

datatype AnnotationCommand = notice | warning | error

record AnnotationProperties =
  ann_file :: string
  ann_startLine :: "nat option"

record Annotation =
  command :: AnnotationCommand
  message :: string
  properties :: AnnotationProperties

text \<open>A \<open>Record<keyof Logger, boolean>\<close>: one flag for each key.\<close>

record FailFlags =
  flag_info :: bool
  flag_warn :: bool
  flag_error :: bool

fun lookup_flag :: "FailFlags \<Rightarrow> LoggerKey \<Rightarrow> bool" where
  "lookup_flag f Info = flag_info f"
| "lookup_flag f Warn = flag_warn f"
| "lookup_flag f Error = flag_error f"

record ActionLogger =
  failed :: LoggerKey
  setFailed :: FailFlags

text \<open>
  The field initialiser of \<open>setFailed\<close> runs first; the constructor body is a \<open>switch\<close>
  whose cases fall through, so entering at \<open>'info'\<close> also executes the statements of
  \<open>'warn'\<close> and \<open>'error'\<close>, and entering at \<open>'warn'\<close> also those of \<open>'error'\<close>.
  The parameter \<open>failed\<close> is optional with default \<open>'error'\<close>.
\<close>

definition setFailed_init :: FailFlags where
  "setFailed_init = \<lparr>flag_info = False, flag_warn = False, flag_error = True\<rparr>"

definition new_ActionLogger :: "LoggerKey option \<Rightarrow> ActionLogger" where
  "new_ActionLogger arg =
     (let failed = (case arg of None \<Rightarrow> Error | Some k \<Rightarrow> k);
          s0 = setFailed_init;
          s1 = (if failed = Info then s0\<lparr>flag_info := True\<rparr> else s0);
          s2 = (if failed = Info \<or> failed = Warn then s1\<lparr>flag_warn := True\<rparr> else s1);
          s3 = (if failed = Info \<or> failed = Warn \<or> failed = Error
                then s2\<lparr>flag_error := True\<rparr> else s2)
      in \<lparr>failed = failed, setFailed = s3\<rparr>)"

text \<open>
  The logger argument of \<open>Database.create\<close> in the command's action:
  \<open>action.isAction() ? new ActionLogger(strict ? 'warn' : 'error') : undefined\<close>.
\<close>

definition select_logger :: "bool \<Rightarrow> bool \<Rightarrow> ActionLogger option" where
  "select_logger isAction strict =
     (if isAction then Some (new_ActionLogger (Some (if strict then Warn else Error)))
      else None)"

text \<open>
  The order of the severities in the words of the spec, \<open>info < warn < error\<close>, and
  "at or above the threshold".
\<close>

fun severity_rank :: "LoggerKey \<Rightarrow> nat" where
  "severity_rank Info = 0"
| "severity_rank Warn = 1"
| "severity_rank Error = 2"

definition at_or_above :: "LoggerKey \<Rightarrow> LoggerKey \<Rightarrow> bool" where
  "at_or_above threshold s = (severity_rank threshold \<le> severity_rank s)"

text \<open>
  \<open>ActionLogger.buildMessage\<close>; \<open>context.raw ?? '<unknown raw>'\<close> replaces a missing raw
  tag.
\<close>

definition buildMessage :: "LoggerKey \<Rightarrow> Context \<Rightarrow> string \<Rightarrow> string" where
  "buildMessage logger context msg =
     ctx_namespace context @ '':''
       @ (case ctx_raw context of None \<Rightarrow> ''<unknown raw>'' | Some r \<Rightarrow> r) @ '': '' @ msg"

text \<open>The field \<open>map\<close>: \<open>info: notice, warn: warning, error: error\<close>.\<close>

fun map_command :: "LoggerKey \<Rightarrow> AnnotationCommand" where
  "map_command Info = notice"
| "map_command Warn = warning"
| "map_command Error = error"

text \<open>
  The part of the process that the logger acts on: the annotations issued so far, in
  order, and \<open>process.exitCode\<close> (\<open>None\<close> while it is unset).
\<close>

record Process =
  annotations :: "Annotation list"
  exitCode :: "int option"

text \<open>
  \<open>ActionLogger.log\<close>. The value of \<open>action.ExitCode.Failure\<close> is declared in
  \<open>tool/utils\<close>, outside the sources at hand, and is the parameter \<open>Failure\<close>.
  The method issues the annotation, then assigns the exit code when the flag of the
  severity is set; it has no other exit.
\<close>

definition log :: "int \<Rightarrow> ActionLogger \<Rightarrow> LoggerKey \<Rightarrow> Context \<Rightarrow> string \<Rightarrow> Process \<Rightarrow> Process" where
  "log Failure this logger context msg p =
     (let p1 = p\<lparr>annotations := annotations p @
                 [\<lparr>command = map_command logger,
                   message = buildMessage logger context msg,
                   properties = \<lparr>ann_file = ''database/'' @ ctx_namespace context @ ''.md'',
                                 ann_startLine = ctx_line context\<rparr>\<rparr>]\<rparr>
      in if lookup_flag (setFailed this) logger then p1\<lparr>exitCode := Some Failure\<rparr> else p1)"

subsection \<open>The database and the source check \<open>runSourceCheck\<close>\<close>

text \<open>
  Modelled from the spec: the classes \<open>Database\<close> and \<open>NamespaceDatabase\<close> of
  \<open>shared/database\<close> are not part of the sources at hand. The spec describes a namespace
  as a named partition with a size (tag count) and an iterable of (tag, tagLine) pairs.
  \<open>db.data\<close> is an object keyed by namespace name; its own keys are distinct and are
  enumerated in one fixed order by \<open>for ... in\<close> and by \<open>Object.values\<close>, so it is a list
  of (key, value) pairs, and \<open>db.data[k]\<close> for an enumerated key \<open>k\<close> is the value paired
  with \<open>k\<close>.
\<close>

record NamespaceDatabase =
  ns_name :: NamespaceName
  ns_size :: nat
  ns_raw :: "(string \<times> TagLine) list"

record Database =
  db_data :: "(NamespaceName \<times> NamespaceDatabase) list"
  repoPath :: string

text \<open>
  What \<open>runSourceCheck\<close> does to the outside, in program order. The lines written to
  the console and to \<open>stderr\<close> are kept as the values they are rendered from:
  \<^item> \<open>CheckingTags\<close> is the line \<open>'\nChecking tags from source...\n'\<close>, \<open>Preloaded n\<close> the
    line \<open>`Preloaded ${n} tags from tag group tool.`\<close>, \<open>Blank\<close> the line \<open>' '\<close>;
  \<^item> \<open>ClearLine\<close> is the write of \<open>clearLine()\<close>, \<open>MoveLineBegin\<close> the write of
    \<open>clc.move.lineBegin\<close>, and \<open>ProgressLine count size ns tag\<close> the write of
    \<open>`[${count}/${size}] ${ns}:${tag}`\<close> padded, followed by the percentage; the
    padding width \<open>sizeWidth\<close> and the percentage are computed from \<open>count\<close>, \<open>size\<close>
    and the window width and appear in this text only;
  \<^item> \<open>NormalizeTag ns tag\<close> is the call \<open>normalizeTag(ns, tag, true)\<close>;
  \<^item> \<open>LoggerCall k context message\<close> is the call \<open>db.logger.k(context, message)\<close>.
\<close>

datatype ConsoleLine = CheckingTags | Preloaded nat | Blank

datatype StderrText = ClearLine | ProgressLine nat nat NamespaceName string | MoveLineBegin

datatype Effect =
    ConsoleLog ConsoleLine
  | StderrWrite StderrText
  | NormalizeTag NamespaceName string
  | LoggerCall LoggerKey Context string

text \<open>The closure \<open>context\<close> of the loop body (\<open>context\<close> is a reserved word here).\<close>

definition context_of :: "string \<Rightarrow> TagLine \<Rightarrow> Context" where
  "context_of tag tagLine = (new_Context (tl_record tagLine) tag)\<lparr>ctx_line := Some (tl_line tagLine)\<rparr>"

text \<open>\<open>if (showProgress) { clearLine(); }\<close>\<close>

definition clearLine_if :: "bool \<Rightarrow> Effect list" where
  "clearLine_if showProgress = (if showProgress then [StderrWrite ClearLine] else [])"

text \<open>
  The body of the inner loop after \<open>count++\<close>, for one pair \<open>[tag, tagLine]\<close>. The result
  of \<open>normalizeTag\<close>, a function of \<open>shared/ehentai\<close>, is the parameter of the same name:
  \<open>None\<close> stands for \<open>null\<close> or \<open>undefined\<close>, \<open>Some (n, t)\<close> for the pair \<open>[n, t]\<close>.
\<close>

definition check_tag ::
  "(NamespaceName \<Rightarrow> string \<Rightarrow> (NamespaceName \<times> string) option) \<Rightarrow> bool \<Rightarrow> nat \<Rightarrow>
   NamespaceName \<Rightarrow> nat \<Rightarrow> string \<times> TagLine \<Rightarrow> Effect list" where
  "check_tag normalizeTag showProgress size_total ns count entry =
     (case entry of (tag, tagLine) \<Rightarrow>
       (if showProgress
        then [StderrWrite ClearLine, StderrWrite (ProgressLine count size_total ns tag),
              StderrWrite MoveLineBegin]
        else [])
       @ [NormalizeTag ns tag]
       @ (case normalizeTag ns tag of
            None \<Rightarrow>
              if length tag \<le> 2
              then clearLine_if showProgress
                   @ [LoggerCall Info (context_of tag tagLine)
                        ''Tag is too short, you should check it manually.'']
              else clearLine_if showProgress
                   @ [LoggerCall Warn (context_of tag tagLine) ''Tag not found.'']
          | Some normTag \<Rightarrow>
              if snd normTag \<noteq> tag
              then clearLine_if showProgress
                   @ [LoggerCall Warn (context_of tag tagLine)
                        (''Tag renamed: => '' @ fst normTag @ '':'' @ snd normTag)]
              else []))"

text \<open>
  The inner loop \<open>for (const [tag, tagLine] of nsDb.raw())\<close>; \<open>count\<close> is threaded
  through and returned.
\<close>

fun check_raw ::
  "(NamespaceName \<Rightarrow> string \<Rightarrow> (NamespaceName \<times> string) option) \<Rightarrow> bool \<Rightarrow> nat \<Rightarrow>
   NamespaceName \<Rightarrow> nat \<Rightarrow> (string \<times> TagLine) list \<Rightarrow> Effect list \<times> nat" where
  "check_raw normalizeTag showProgress size_total ns count [] = ([], count)"
| "check_raw normalizeTag showProgress size_total ns count (entry # entries) =
     (case check_raw normalizeTag showProgress size_total ns (count + 1) entries of
        (later, count') \<Rightarrow>
          (check_tag normalizeTag showProgress size_total ns (count + 1) entry @ later, count'))"

text \<open>The outer loop \<open>for (const k in db.data)\<close> with its \<open>continue\<close> for \<open>'rows'\<close>.\<close>

fun check_data ::
  "(NamespaceName \<Rightarrow> string \<Rightarrow> (NamespaceName \<times> string) option) \<Rightarrow> bool \<Rightarrow> nat \<Rightarrow>
   nat \<Rightarrow> (NamespaceName \<times> NamespaceDatabase) list \<Rightarrow> Effect list \<times> nat" where
  "check_data normalizeTag showProgress size_total count [] = ([], count)"
| "check_data normalizeTag showProgress size_total count ((ns, nsDb) # rest) =
     (if ns = ''rows'' then check_data normalizeTag showProgress size_total count rest
      else (case check_raw normalizeTag showProgress size_total ns count (ns_raw nsDb) of
              (first, count1) \<Rightarrow>
                (case check_data normalizeTag showProgress size_total count1 rest of
                   (later, count2) \<Rightarrow> (first @ later, count2))))"

text \<open>
  \<open>Object.values(db.data).reduce((sum, ns) => sum + (ns.name === 'rows' ? 0 : ns.size), 0)\<close>
\<close>

definition total_size :: "Database \<Rightarrow> nat" where
  "total_size db =
     foldl (\<lambda>sum ns. sum + (if ns_name ns = ''rows'' then 0 else ns_size ns)) 0
       (map snd (db_data db))"

text \<open>
  \<open>runSourceCheck\<close>. \<open>masterTags\<close> is the list that \<open>loadMasterTags\<close> resolved to,
  \<open>isTTY\<close> is \<open>process.stderr.isTTY\<close> and \<open>width\<close> is \<open>clc.windowSize.width\<close>.
\<close>

definition runSourceCheck ::
  "(NamespaceName \<Rightarrow> string \<Rightarrow> (NamespaceName \<times> string) option) \<Rightarrow> 'm list \<Rightarrow> bool \<Rightarrow> int \<Rightarrow>
   Database \<Rightarrow> Effect list" where
  "runSourceCheck normalizeTag masterTags isTTY width db =
     (let size_total = total_size db;
          showProgress = (isTTY \<and> width > 0)
      in [ConsoleLog CheckingTags, ConsoleLog (Preloaded (length masterTags))]
         @ fst (check_data normalizeTag showProgress size_total 0 (db_data db))
         @ [ConsoleLog Blank])"

text \<open>The findings of a run: its calls of the logger, in order.\<close>

fun findings :: "Effect list \<Rightarrow> (LoggerKey \<times> Context \<times> string) list" where
  "findings [] = []"
| "findings (LoggerCall k c m # es) = (k, c, m) # findings es"
| "findings (ConsoleLog l # es) = findings es"
| "findings (StderrWrite t # es) = findings es"
| "findings (NormalizeTag ns tag # es) = findings es"

text \<open>Everything a run does except its writes to \<open>stderr\<close>.\<close>

fun without_stderr :: "Effect list \<Rightarrow> Effect list" where
  "without_stderr [] = []"
| "without_stderr (StderrWrite t # es) = without_stderr es"
| "without_stderr (e # es) = e # without_stderr es"

text \<open>
  Modelled from the spec: the base class \<open>Logger\<close> of \<open>shared/markdown\<close> is not part of
  the sources at hand. The spec describes the logger as three named severities, each
  routed to its channel; the subclass overrides the protected method
  \<open>log(logger, context, message)\<close>, so the public methods \<open>info\<close>, \<open>warn\<close> and \<open>error\<close>
  hand their arguments to \<open>log\<close> under their own name. \<open>deliver\<close> runs the logger calls of
  a trace against an \<open>ActionLogger\<close>.
\<close>

fun deliver :: "int \<Rightarrow> ActionLogger \<Rightarrow> Effect list \<Rightarrow> Process \<Rightarrow> Process" where
  "deliver Failure lg [] p = p"
| "deliver Failure lg (LoggerCall k c m # es) p = deliver Failure lg es (log Failure lg k c m p)"
| "deliver Failure lg (ConsoleLog l # es) p = deliver Failure lg es p"
| "deliver Failure lg (StderrWrite t # es) p = deliver Failure lg es p"
| "deliver Failure lg (NormalizeTag ns tag # es) p = deliver Failure lg es p"

subsection \<open>The packager \<open>save\<close> and the release build \<open>createRelease\<close>\<close>

text \<open>
  \<open>TagType\<close>: the representation kinds \<open>'full' | 'raw' | 'text' | 'html' | 'ast'\<close>, and
  the text each one interpolates to.
\<close>

datatype TagType = Full | Raw | Text | Html | Ast

fun type_name :: "TagType \<Rightarrow> string" where
  "type_name Full = ''full''"
| "type_name Raw = ''raw''"
| "type_name Text = ''text''"
| "type_name Html = ''html''"
| "type_name Ast = ''ast''"

text \<open>\<open>const types = ['full', 'raw', 'text', 'html', 'ast'] as const\<close>\<close>

definition types :: "TagType list" where
  "types = [Full, Raw, Text, Html, Ast]"

text \<open>
  The content of a file: text that was written as a string, or the bytes of a
  \<open>Uint8Array\<close>.
\<close>

type_synonym bytes = "8 word list"

datatype FileContent = TextContent string | BinaryContent bytes

text \<open>
  The operations on the file system and the working directory that can be refused, each
  with the directory it acts in. \<open>IoError op\<close> is the error of a refused operation that
  reaches the caller, as an exception or as the rejection of the awaited promise.
  \<open>Uncaught op\<close> is the error of a refused operation that no caller receives: it is
  emitted as an \<open>'error'\<close> event without a listener, which ends the process.
\<close>

datatype FsOp =
    EnsureDir string
  | Chdir string
  | WriteFile string string
  | Stat string string
  | OpenStream string string
  | StreamWrite string string string
  | StreamEnd string string

datatype IoError = IoError FsOp | Uncaught FsOp

text \<open>
  The lines of the console, kept as the values they are rendered from: \<open>Created file c\<close>
  is the line \<open>`Created: ${file} (${size} bytes)`\<close> for a file whose content on disk is
  \<open>c\<close>; \<open>StartGroup\<close> and \<open>EndGroup\<close> are the calls \<open>action.startGroup\<close> and
  \<open>action.endGroup\<close>.
\<close>

datatype ReleaseLine =
    BuildingReleases
  | SourceLine string
  | DestinationLine string
  | EmptyLine
  | StartGroup string
  | EndGroup
  | Created string FileContent

text \<open>
  The state that the release build acts on: the working directory of the process, the
  directories that exist, the files by directory and name, and the console. Paths are
  absolute: the command resolves \<open>destination\<close> with \<open>path.resolve\<close> before the call,
  and a relative file name denotes the file of that name in the working directory.
\<close>

record World =
  cwd :: string
  directories :: "string set"
  files :: "string \<times> string \<Rightarrow> FileContent option"
  console :: "ReleaseLine list"

text \<open>
  What the release build takes from outside this file: \<open>db.render\<close>, \<open>JSON.stringify\<close>,
  \<open>gzip\<close> of the library \<open>pako\<close>, the base64 encoding of \<open>Buffer\<close>, the text exported
  by \<open>./pako\<close> (the decompressor's source), \<open>action.isAction()\<close>, and which operations
  the system refuses. \<open>db.render\<close>, \<open>JSON.stringify\<close>, \<open>gzip\<close> and the encoding are
  taken to return a value for every argument.
\<close>

record 'd Env =
  render :: "TagType \<Rightarrow> 'd"
  stringify :: "'d \<Rightarrow> string"
  gzip :: "string \<Rightarrow> bytes"
  base64 :: "bytes \<Rightarrow> string"
  pako :: string
  isAction :: bool
  refuses :: "FsOp \<Rightarrow> bool"

text \<open>
  An asynchronous computation that is awaited: it ends with a value or with an error,
  and leaves a state behind in both cases. \<open>io_bind\<close> is \<open>await\<close> followed by the rest
  of the function: an error ends the function at once, whether it is thrown to the caller
  or ends the process.
\<close>

type_synonym 'a io = "World \<Rightarrow> (IoError + 'a) \<times> World"

definition io_return :: "'a \<Rightarrow> 'a io" where
  "io_return x w = (Inr x, w)"

definition io_bind :: "'a io \<Rightarrow> ('a \<Rightarrow> 'b io) \<Rightarrow> 'b io" where
  "io_bind m f w = (case m w of (Inl e, w') \<Rightarrow> (Inl e, w') | (Inr x, w') \<Rightarrow> f x w')"

definition console_log :: "ReleaseLine \<Rightarrow> unit io" where
  "console_log l w = (Inr (), w\<lparr>console := console w @ [l]\<rparr>)"

definition writeFile :: "'d Env \<Rightarrow> string \<Rightarrow> FileContent \<Rightarrow> unit io" where
  "writeFile env file content w =
     (if refuses env (WriteFile (cwd w) file) then (Inl (IoError (WriteFile (cwd w) file)), w)
      else (Inr (), w\<lparr>files := (files w)((cwd w, file) \<mapsto> content)\<rparr>))"

text \<open>\<open>fs.stat(file)\<close>: fails for a file that does not exist; the result is the content
  whose size is read.\<close>

definition stat :: "'d Env \<Rightarrow> string \<Rightarrow> FileContent io" where
  "stat env file w =
     (if refuses env (Stat (cwd w) file) then (Inl (IoError (Stat (cwd w) file)), w)
      else (case files w (cwd w, file) of
              None \<Rightarrow> (Inl (IoError (Stat (cwd w) file)), w)
            | Some c \<Rightarrow> (Inr c, w)))"

definition logFile :: "'d Env \<Rightarrow> string \<Rightarrow> unit io" where
  "logFile env file = io_bind (stat env file) (\<lambda>c. console_log (Created file c))"

text \<open>
  \<open>fs.createWriteStream(file)\<close> opens the file for writing, which empties it; the stream
  is the file it writes to. The call is not awaited and \<open>save\<close> attaches no \<open>'error'\<close>
  listener to the stream, so a refused open is not thrown to \<open>save\<close>: it is an unhandled
  event that ends the process. Each \<open>write(data)\<close> appends \<open>data\<close> and passes a failure to
  its callback, which rejects the awaited promise; \<open>end\<close> closes the stream.
\<close>

definition createWriteStream :: "'d Env \<Rightarrow> string \<Rightarrow> (string \<times> string) io" where
  "createWriteStream env file w =
     (if refuses env (OpenStream (cwd w) file) then (Inl (Uncaught (OpenStream (cwd w) file)), w)
      else (Inr (cwd w, file), w\<lparr>files := (files w)((cwd w, file) \<mapsto> TextContent [])\<rparr>))"

fun text_of :: "FileContent option \<Rightarrow> string" where
  "text_of (Some (TextContent s)) = s"
| "text_of (Some (BinaryContent b)) = []"
| "text_of None = []"

definition jsonp_write :: "'d Env \<Rightarrow> string \<times> string \<Rightarrow> string \<Rightarrow> unit io" where
  "jsonp_write env jsonp data w =
     (if refuses env (StreamWrite (fst jsonp) (snd jsonp) data)
      then (Inl (IoError (StreamWrite (fst jsonp) (snd jsonp) data)), w)
      else (Inr (), w\<lparr>files := (files w)(jsonp \<mapsto> TextContent (text_of (files w jsonp) @ data))\<rparr>))"

definition stream_end :: "'d Env \<Rightarrow> string \<times> string \<Rightarrow> unit io" where
  "stream_end env jsonp w =
     (if refuses env (StreamEnd (fst jsonp) (snd jsonp))
      then (Inl (IoError (StreamEnd (fst jsonp) (snd jsonp))), w)
      else (Inr (), w))"

text \<open>The character \<open>'\<close>, which the literals of \<open>save\<close> contain.\<close>

definition apostrophe :: string where
  "apostrophe = [CHR 0x27]"

text \<open>\<open>save(data, type)\<close>\<close>

definition save :: "'d Env \<Rightarrow> 'd \<Rightarrow> TagType \<Rightarrow> unit io" where
  "save env data type =
     (let json = stringify env data;
          gz = gzip env json
      in io_bind (writeFile env (''db.'' @ type_name type @ ''.json'') (TextContent json)) (\<lambda>_.
         io_bind (logFile env (''db.'' @ type_name type @ ''.json'')) (\<lambda>_.
         io_bind (writeFile env (''db.'' @ type_name type @ ''.json.gz'') (BinaryContent gz)) (\<lambda>_.
         io_bind (logFile env (''db.'' @ type_name type @ ''.json.gz'')) (\<lambda>_.
         io_bind (createWriteStream env (''db.'' @ type_name type @ ''.js'')) (\<lambda>jsonp.
         io_bind (jsonp_write env jsonp
                    (''(function(){var d={c:'' @ apostrophe @ ''load_ehtagtranslation_db_''
                       @ type_name type @ apostrophe @ '',d:'' @ apostrophe)) (\<lambda>_.
         io_bind (jsonp_write env jsonp (base64 env gz)) (\<lambda>_.
         io_bind (jsonp_write env jsonp (apostrophe @ ''};'')) (\<lambda>_.
         io_bind (jsonp_write env jsonp (pako env)) (\<lambda>_.
         io_bind (jsonp_write env jsonp ''})();'') (\<lambda>_.
         io_bind (stream_end env jsonp) (\<lambda>_.
         logFile env (''db.'' @ type_name type @ ''.js'')))))))))))))"

text \<open>\<open>fs.ensureDir\<close>, \<open>process.cwd\<close> and \<open>process.chdir\<close>\<close>

definition ensureDir :: "'d Env \<Rightarrow> string \<Rightarrow> unit io" where
  "ensureDir env dir w =
     (if refuses env (EnsureDir dir) then (Inl (IoError (EnsureDir dir)), w)
      else (Inr (), w\<lparr>directories := insert dir (directories w)\<rparr>))"

definition process_cwd :: "string io" where
  "process_cwd w = (Inr (cwd w), w)"

definition chdir :: "'d Env \<Rightarrow> string \<Rightarrow> unit io" where
  "chdir env dir w =
     (if refuses env (Chdir dir) \<or> dir \<notin> directories w then (Inl (IoError (Chdir dir)), w)
      else (Inr (), w\<lparr>cwd := dir\<rparr>))"

text \<open>The loop \<open>for (const k of types) { await save(data[k], k); }\<close>\<close>

fun save_all :: "'d Env \<Rightarrow> (TagType \<Rightarrow> 'd) \<Rightarrow> TagType list \<Rightarrow> unit io" where
  "save_all env data [] = io_return ()"
| "save_all env data (k # ks) = io_bind (save env (data k) k) (\<lambda>_. save_all env data ks)"

text \<open>
  \<open>createRelease(db, destination)\<close>. The first loop fills \<open>data[k]\<close> with \<open>db.render(k)\<close>
  for each kind.
\<close>

definition createRelease :: "'d Env \<Rightarrow> Database \<Rightarrow> string \<Rightarrow> unit io" where
  "createRelease env db destination =
     io_bind (console_log BuildingReleases) (\<lambda>_.
     io_bind (console_log (SourceLine (repoPath db))) (\<lambda>_.
     io_bind (console_log (DestinationLine destination)) (\<lambda>_.
     (let data = (\<lambda>k. render env k) in
     io_bind process_cwd (\<lambda>old.
     io_bind (ensureDir env destination) (\<lambda>_.
     io_bind (chdir env destination) (\<lambda>_.
     io_bind (if isAction env then console_log (StartGroup ''files'') else console_log EmptyLine) (\<lambda>_.
     io_bind (save_all env data types) (\<lambda>_.
     io_bind (if isAction env then console_log EndGroup else console_log EmptyLine) (\<lambda>_.
     chdir env old))))))))))"

subsection \<open>Auxiliary notions for the properties\<close>

text \<open>
  The pairs that the two loops of \<open>runSourceCheck\<close> are expected to reach, in order:
  the tag lines of every entry but \<open>rows\<close>, each with the key of its entry.
\<close>

definition visited_data ::
  "(NamespaceName \<times> NamespaceDatabase) list \<Rightarrow> (NamespaceName \<times> string \<times> TagLine) list" where
  "visited_data d =
     concat (map (\<lambda>(ns, nsDb). map (Pair ns) (ns_raw nsDb))
               (filter (\<lambda>(ns, nsDb). ns \<noteq> ''rows'') d))"

definition visited :: "Database \<Rightarrow> (NamespaceName \<times> string \<times> TagLine) list" where
  "visited db = visited_data (db_data db)"

text \<open>
  The logger calls that the loop body makes for one visited tag line. They depend neither
  on the progress display nor on the two counters, which are fixed here.
\<close>

definition tag_findings ::
  "(NamespaceName \<Rightarrow> string \<Rightarrow> (NamespaceName \<times> string) option) \<Rightarrow>
   NamespaceName \<times> string \<times> TagLine \<Rightarrow> (LoggerKey \<times> Context \<times> string) list" where
  "tag_findings normalizeTag v =
     (case v of (ns, entry) \<Rightarrow> findings (check_tag normalizeTag False 0 ns 0 entry))"

text \<open>The annotation that \<open>ActionLogger.log\<close> issues for a finding.\<close>

definition annotation_of :: "LoggerKey \<times> Context \<times> string \<Rightarrow> Annotation" where
  "annotation_of f =
     (case f of (k, c, m) \<Rightarrow>
        \<lparr>command = map_command k, message = buildMessage k c m,
         properties = \<lparr>ann_file = ''database/'' @ ctx_namespace c @ ''.md'',
                       ann_startLine = ctx_line c\<rparr>\<rparr>)"

text \<open>
  A small database and canonical source for the concrete instances: \<open>ok\<close> is canonical,
  \<open>xx\<close> was renamed to \<open>xy\<close>, \<open>shared\<close> is canonical in another namespace, and \<open>zz\<close>
  and \<open>unknown\<close> are not known; the database also has the meta-entry \<open>rows\<close>.
\<close>

definition example_normalizeTag :: "NamespaceName \<Rightarrow> string \<Rightarrow> (NamespaceName \<times> string) option" where
  "example_normalizeTag ns tag =
     (if tag = ''ok'' then Some (ns, ''ok'')
      else if tag = ''xx'' then Some (ns, ''xy'')
      else if tag = ''shared'' then Some (''male'', ''shared'')
      else None)"

definition example_line :: "NamespaceName \<Rightarrow> nat \<Rightarrow> TagLine" where
  "example_line ns n = \<lparr>tl_record = \<lparr>rec_namespace = ns\<rparr>, tl_line = n\<rparr>"

definition example_db :: Database where
  "example_db =
     \<lparr>db_data =
        [(''rows'', \<lparr>ns_name = ''rows'', ns_size = 1,
                     ns_raw = [(''female'', example_line ''rows'' 3)]\<rparr>),
         (''female'', \<lparr>ns_name = ''female'', ns_size = 5,
                       ns_raw = [(''ok'', example_line ''female'' 4),
                                 (''zz'', example_line ''female'' 5),
                                 (''xx'', example_line ''female'' 6),
                                 (''shared'', example_line ''female'' 7),
                                 (''unknown'', example_line ''female'' 8)]\<rparr>)],
      repoPath = ''.''\<rparr>"



text \<open>
  The status the process ends with when nothing else intervenes: \<open>process.exitCode\<close>
  when it was assigned, 0 otherwise.
\<close>

definition exit_status :: "Process \<Rightarrow> int" where
  "exit_status p = (case exitCode p of None \<Rightarrow> 0 | Some v \<Rightarrow> v)"

text \<open>A database whose findings are all warnings, and a process that has logged nothing.\<close>

definition example_db_warn :: Database where
  "example_db_warn =
     \<lparr>db_data =
        [(''female'', \<lparr>ns_name = ''female'', ns_size = 2,
                       ns_raw = [(''xx'', example_line ''female'' 4),
                                 (''unknown'', example_line ''female'' 5)]\<rparr>)],
      repoPath = ''.''\<rparr>"

definition example_process :: Process where
  "example_process = \<lparr>annotations = [], exitCode = None\<rparr>"

text \<open>
  The script artifact in the words of the spec:
  \<open>(function(){var d={c:'load_ehtagtranslation_db_<k>',d:'<base64>'};<decompressor-source>})();\<close>
\<close>

definition script_head :: "TagType \<Rightarrow> string" where
  "script_head k =
     ''(function(){var d={c:'' @ apostrophe @ ''load_ehtagtranslation_db_'' @ type_name k
       @ apostrophe @ '',d:'' @ apostrophe"

definition script_form :: "TagType \<Rightarrow> string \<Rightarrow> string \<Rightarrow> string" where
  "script_form k encoded decompressor =
     script_head k @ encoded @ apostrophe @ ''};'' @ decompressor @ ''})();''"

text \<open>
  What a loader finds as the property \<open>d\<close> of the object in the script: the text of the
  string literal that follows the head, up to the apostrophe that closes it.
\<close>

definition embedded_payload :: "TagType \<Rightarrow> string \<Rightarrow> string" where
  "embedded_payload k script =
     takeWhile (\<lambda>c. c \<noteq> CHR 0x27) (drop (length (script_head k)) script)"

text \<open>
  The three artifacts of kind \<open>k\<close> in directory \<open>dir\<close>, as the spec describes them for
  the rendered data \<open>d\<close>: the JSON text, its compressed bytes, and the script around the
  base64 encoding of those bytes.
\<close>

definition artifacts :: "'d Env \<Rightarrow> 'd \<Rightarrow> TagType \<Rightarrow> string \<Rightarrow> (string \<times> string \<Rightarrow> FileContent option) \<Rightarrow> bool" where
  "artifacts env d k dir fs =
     (fs (dir, ''db.'' @ type_name k @ ''.json'') = Some (TextContent (stringify env d))
      \<and> fs (dir, ''db.'' @ type_name k @ ''.json.gz'')
          = Some (BinaryContent (gzip env (stringify env d)))
      \<and> fs (dir, ''db.'' @ type_name k @ ''.js'')
          = Some (TextContent (script_form k (base64 env (gzip env (stringify env d))) (pako env))))"

text \<open>
  An environment for the concrete instances. Its codecs are stand-ins with the one
  property the round trip needs of the real ones, that decoding inverts encoding: the
  compressor stores each character as a byte, and the encoder writes each byte as two
  letters of \<open>a\<close> to \<open>p\<close>.
\<close>

definition example_gzip :: "string \<Rightarrow> bytes" where
  "example_gzip s = map (\<lambda>c. of_nat (of_char c)) s"

definition example_inflate :: "bytes \<Rightarrow> string option" where
  "example_inflate b = Some (map (\<lambda>x. char_of (unat x)) b)"

definition example_base64 :: "bytes \<Rightarrow> string" where
  "example_base64 b =
     concat (map (\<lambda>x. [char_of (97 + unat x div 16), char_of (97 + unat x mod 16)]) b)"

fun example_decode :: "string \<Rightarrow> bytes option" where
  "example_decode [] = Some []"
| "example_decode [h] = None"
| "example_decode (h # l # rest) =
     map_option (\<lambda>b. of_nat ((of_char h - 97) * 16 + (of_char l - 97)) # b) (example_decode rest)"

definition example_env :: "string Env" where
  "example_env =
     \<lparr>render = (\<lambda>k. ''data of '' @ type_name k), stringify = (\<lambda>d. d),
      gzip = example_gzip, base64 = example_base64,
      pako = ''function inflate(){}'', isAction = False, refuses = (\<lambda>op. False)\<rparr>"

text \<open>The same environment on a system that refuses to write \<open>db.full.json\<close>.\<close>

definition example_env_denied :: "string Env" where
  "example_env_denied = example_env\<lparr>refuses := (\<lambda>op. op = WriteFile ''/out'' ''db.full.json'')\<rparr>"

definition example_world :: World where
  "example_world = \<lparr>cwd = ''/repo'', directories = {''/repo''}, files = Map.empty, console = []\<rparr>"

section \<open>Properties\<close>

subsection \<open>The failure threshold\<close>

lemma setFailed_new_ActionLogger:
  "lookup_flag (setFailed (new_ActionLogger (Some t))) s = at_or_above t s"
  by (cases t; cases s) (simp_all add: new_ActionLogger_def setFailed_init_def at_or_above_def)

text \<open>
  C3: a logger constructed with threshold \<open>t\<close> marks exactly the severities at or above
  \<open>t\<close> as failing the run: all three for \<open>info\<close>, \<open>warn\<close> and \<open>error\<close> for \<open>warn\<close>,
  \<open>error\<close> alone for \<open>error\<close>. Without an argument the threshold is \<open>error\<close>, and the
  command passes \<open>warn\<close> in strict mode and \<open>error\<close> otherwise.
\<close>

theorem C3_failure_threshold:
  "lookup_flag (setFailed (new_ActionLogger (Some t))) s = at_or_above t s
   \<and> {s. lookup_flag (setFailed (new_ActionLogger (Some Info))) s} = {Info, Warn, Error}
   \<and> {s. lookup_flag (setFailed (new_ActionLogger (Some Warn))) s} = {Warn, Error}
   \<and> {s. lookup_flag (setFailed (new_ActionLogger (Some Error))) s} = {Error}
   \<and> new_ActionLogger None = new_ActionLogger (Some Error)
   \<and> failed (new_ActionLogger None) = Error
   \<and> failed (new_ActionLogger (Some t)) = t
   \<and> select_logger True True = Some (new_ActionLogger (Some Warn))
   \<and> select_logger True False = Some (new_ActionLogger (Some Error))"
proof -
  have a: "{s. lookup_flag (setFailed (new_ActionLogger (Some Info))) s} = {Info, Warn, Error}"
  proof (rule set_eqI)
    fix s show "(s \<in> {s. lookup_flag (setFailed (new_ActionLogger (Some Info))) s})
                = (s \<in> {Info, Warn, Error})"
      unfolding mem_Collect_eq setFailed_new_ActionLogger
      by (cases s) (simp_all add: at_or_above_def)
  qed
  have b: "{s. lookup_flag (setFailed (new_ActionLogger (Some Warn))) s} = {Warn, Error}"
  proof (rule set_eqI)
    fix s show "(s \<in> {s. lookup_flag (setFailed (new_ActionLogger (Some Warn))) s})
                = (s \<in> {Warn, Error})"
      unfolding mem_Collect_eq setFailed_new_ActionLogger
      by (cases s) (simp_all add: at_or_above_def)
  qed
  have c: "{s. lookup_flag (setFailed (new_ActionLogger (Some Error))) s} = {Error}"
  proof (rule set_eqI)
    fix s show "(s \<in> {s. lookup_flag (setFailed (new_ActionLogger (Some Error))) s})
                = (s \<in> {Error})"
      unfolding mem_Collect_eq setFailed_new_ActionLogger
      by (cases s) (simp_all add: at_or_above_def)
  qed
  have d: "new_ActionLogger None = new_ActionLogger (Some Error)"
    by (simp add: new_ActionLogger_def)
  have e: "failed (new_ActionLogger None) = Error"
    by (simp add: new_ActionLogger_def)
  have f: "failed (new_ActionLogger (Some t)) = t"
    by (simp add: new_ActionLogger_def Let_def)
  have g: "select_logger True True = Some (new_ActionLogger (Some Warn))"
    "select_logger True False = Some (new_ActionLogger (Some Error))"
    by (simp_all add: select_logger_def)
  from setFailed_new_ActionLogger a b c d e f g show ?thesis by blast
qed

subsection \<open>Findings of the source check\<close>

lemma findings_append: "findings (xs @ ys) = findings xs @ findings ys"
  by (induction xs rule: findings.induct) simp_all

lemma without_stderr_append: "without_stderr (xs @ ys) = without_stderr xs @ without_stderr ys"
  by (induction xs rule: without_stderr.induct) simp_all

lemma findings_clearLine_if: "findings (clearLine_if b) = []"
  by (simp add: clearLine_if_def)

lemma without_stderr_clearLine_if: "without_stderr (clearLine_if b) = []"
  by (simp add: clearLine_if_def)

lemma findings_check_tag:
  "findings (check_tag nt sp sz ns cnt (tag, tagLine)) =
     (case nt ns tag of
        None \<Rightarrow> [if length tag \<le> 2
                 then (Info, context_of tag tagLine, ''Tag is too short, you should check it manually.'')
                 else (Warn, context_of tag tagLine, ''Tag not found.'')]
      | Some normTag \<Rightarrow>
          if snd normTag \<noteq> tag
          then [(Warn, context_of tag tagLine, ''Tag renamed: => '' @ fst normTag @ '':'' @ snd normTag)]
          else [])"
  by (simp add: check_tag_def findings_append findings_clearLine_if split: option.split)




subsection \<open>The loops of the source check\<close>

lemma fst_check_raw_Cons:
  "fst (check_raw nt sp sz ns cnt (e # es)) =
     check_tag nt sp sz ns (cnt + 1) e @ fst (check_raw nt sp sz ns (cnt + 1) es)"
  by (simp add: case_prod_unfold)

lemma snd_check_raw_Cons:
  "snd (check_raw nt sp sz ns cnt (e # es)) = snd (check_raw nt sp sz ns (cnt + 1) es)"
  by (simp add: case_prod_unfold)

lemma fst_check_data_rows:
  "fst (check_data nt sp sz cnt ((''rows'', nsDb) # rest)) = fst (check_data nt sp sz cnt rest)"
  by simp

lemma fst_check_data_other:
  "ns \<noteq> ''rows'' \<Longrightarrow>
   fst (check_data nt sp sz cnt ((ns, nsDb) # rest)) =
     fst (check_raw nt sp sz ns cnt (ns_raw nsDb))
     @ fst (check_data nt sp sz (snd (check_raw nt sp sz ns cnt (ns_raw nsDb))) rest)"
  by (simp add: case_prod_unfold)

lemma check_raw_count: "snd (check_raw nt sp sz ns cnt es) = cnt + length es"
proof (induction es arbitrary: cnt)
  case Nil
  show ?case by simp
next
  case (Cons e es)
  show ?case by (simp only: snd_check_raw_Cons Cons.IH) simp
qed

lemma without_stderr_check_tag:
  "without_stderr (check_tag nt sp sz ns cnt e) = without_stderr (check_tag nt sp' sz' ns cnt' e)"
  by (cases e)
     (simp add: check_tag_def without_stderr_append without_stderr_clearLine_if split: option.split)

lemma without_stderr_check_raw:
  "without_stderr (fst (check_raw nt sp sz ns cnt es)) =
   without_stderr (fst (check_raw nt sp' sz' ns cnt' es))"
proof (induction es arbitrary: cnt cnt')
  case Nil
  show ?case by simp
next
  case (Cons e es)
  from Cons.IH [of "cnt + 1" "cnt' + 1"]
       without_stderr_check_tag [of nt sp sz ns "cnt + 1" e sp' sz' "cnt' + 1"]
  show ?case by (simp only: fst_check_raw_Cons without_stderr_append)
qed

lemma without_stderr_check_data:
  "without_stderr (fst (check_data nt sp sz cnt d)) =
   without_stderr (fst (check_data nt sp' sz' cnt' d))"
proof (induction d arbitrary: cnt cnt')
  case Nil
  show ?case by simp
next
  case (Cons entry d)
  obtain ns nsDb where entry: "entry = (ns, nsDb)" by (cases entry)
  show ?case
  proof (cases "ns = ''rows''")
    case True
    with Cons.IH [of cnt cnt'] entry show ?thesis by (simp only: fst_check_data_rows)
  next
    case False
    have "without_stderr (fst (check_raw nt sp sz ns cnt (ns_raw nsDb)))
        = without_stderr (fst (check_raw nt sp' sz' ns cnt' (ns_raw nsDb)))"
      by (rule without_stderr_check_raw)
    moreover have
      "without_stderr (fst (check_data nt sp sz (snd (check_raw nt sp sz ns cnt (ns_raw nsDb))) d))
     = without_stderr (fst (check_data nt sp' sz' (snd (check_raw nt sp' sz' ns cnt' (ns_raw nsDb))) d))"
      by (rule Cons.IH)
    ultimately show ?thesis
      using entry by (simp only: fst_check_data_other [OF False] without_stderr_append)
  qed
qed

lemma findings_without_stderr: "findings (without_stderr es) = findings es"
  by (induction es rule: without_stderr.induct) simp_all

lemma without_stderr_no_progress_tag:
  "without_stderr (check_tag nt False sz ns cnt e) = check_tag nt False sz ns cnt e"
  by (cases e) (simp add: check_tag_def clearLine_if_def split: option.split)

lemma without_stderr_no_progress_raw:
  "without_stderr (fst (check_raw nt False sz ns cnt es)) = fst (check_raw nt False sz ns cnt es)"
proof (induction es arbitrary: cnt)
  case Nil
  show ?case by simp
next
  case (Cons e es)
  show ?case
    by (simp only: fst_check_raw_Cons without_stderr_append without_stderr_no_progress_tag Cons.IH)
qed

lemma without_stderr_no_progress_data:
  "without_stderr (fst (check_data nt False sz cnt d)) = fst (check_data nt False sz cnt d)"
proof (induction d arbitrary: cnt)
  case Nil
  show ?case by simp
next
  case (Cons entry d)
  obtain ns nsDb where entry: "entry = (ns, nsDb)" by (cases entry)
  show ?case
  proof (cases "ns = ''rows''")
    case True
    with Cons.IH [of cnt] entry show ?thesis by (simp only: fst_check_data_rows)
  next
    case False
    show ?thesis
      unfolding entry
      by (simp only: fst_check_data_other [OF False] without_stderr_append
            without_stderr_no_progress_raw Cons.IH)
  qed
qed

text \<open>
  C9: the progress display does not influence the check. For the same database and the
  same canonical source, two runs that differ only in \<open>process.stderr.isTTY\<close> and the
  window width make the same logger calls, with the same severities, contexts and
  messages, in the same order; they agree on everything but their writes to \<open>stderr\<close>,
  and a run without those writes is the run with the display off.
\<close>

theorem C9_progress_is_cosmetic:
  "findings (runSourceCheck normalizeTag masterTags isTTY width db)
     = findings (runSourceCheck normalizeTag masterTags isTTY' width' db)
   \<and> without_stderr (runSourceCheck normalizeTag masterTags isTTY width db)
     = without_stderr (runSourceCheck normalizeTag masterTags isTTY' width' db)
   \<and> without_stderr (runSourceCheck normalizeTag masterTags isTTY width db)
     = runSourceCheck normalizeTag masterTags False width db"
proof -
  let ?sz = "total_size db"
  have eq: "\<And>sp sp'. without_stderr (fst (check_data normalizeTag sp ?sz 0 (db_data db)))
      = without_stderr (fst (check_data normalizeTag sp' ?sz 0 (db_data db)))"
    by (rule without_stderr_check_data)
  have w: "without_stderr (runSourceCheck normalizeTag masterTags isTTY width db)
     = without_stderr (runSourceCheck normalizeTag masterTags isTTY' width' db)"
    using eq [of "isTTY \<and> 0 < width" "isTTY' \<and> 0 < width'"]
    by (simp add: runSourceCheck_def Let_def without_stderr_append)
  have "findings (without_stderr (runSourceCheck normalizeTag masterTags isTTY width db))
     = findings (without_stderr (runSourceCheck normalizeTag masterTags isTTY' width' db))"
    by (simp only: w)
  then have f: "findings (runSourceCheck normalizeTag masterTags isTTY width db)
     = findings (runSourceCheck normalizeTag masterTags isTTY' width' db)"
    by (simp only: findings_without_stderr)
  have n: "without_stderr (runSourceCheck normalizeTag masterTags isTTY width db)
     = runSourceCheck normalizeTag masterTags False width db"
    using eq [of "isTTY \<and> 0 < width" False]
      without_stderr_no_progress_data [of normalizeTag ?sz 0 "db_data db"]
    by (simp add: runSourceCheck_def Let_def without_stderr_append)
  from f w n show ?thesis by blast
qed


subsection \<open>The meta-namespace\<close>

lemma visited_data: "visited db = visited_data (db_data db)"
  by (simp add: visited_def)

lemma visited_data_Nil: "visited_data [] = []"
  by (simp add: visited_data_def)

lemma visited_data_rows: "visited_data ((''rows'', nsDb) # d) = visited_data d"
  by (simp add: visited_data_def)

lemma visited_data_other:
  "ns \<noteq> ''rows'' \<Longrightarrow> visited_data ((ns, nsDb) # d) = map (Pair ns) (ns_raw nsDb) @ visited_data d"
  by (simp add: visited_data_def)














lemma findings_check_raw:
  "findings (fst (check_raw nt sp sz ns cnt es)) =
     concat (map (\<lambda>e. findings (check_tag nt False 0 ns 0 e)) es)"
proof (induction es arbitrary: cnt)
  case Nil
  show ?case by simp
next
  case (Cons e es)
  obtain tag tagLine where e: "e = (tag, tagLine)" by (cases e)
  have "findings (check_tag nt sp sz ns (cnt + 1) e) = findings (check_tag nt False 0 ns 0 e)"
    unfolding e by (simp only: findings_check_tag)
  then show ?case
    by (simp only: fst_check_raw_Cons findings_append Cons.IH) simp
qed



lemma findings_check_data:
  "findings (fst (check_data nt sp sz cnt d)) =
     concat (map (\<lambda>(ns, e). findings (check_tag nt False 0 ns 0 e)) (visited_data d))"
proof (induction d arbitrary: cnt)
  case Nil
  show ?case by (simp add: visited_data_Nil)
next
  case (Cons entry d)
  obtain ns nsDb where entry: "entry = (ns, nsDb)" by (cases entry)
  show ?case
  proof (cases "ns = ''rows''")
    case True
    with Cons.IH [of cnt] entry show ?thesis
      by (simp only: fst_check_data_rows visited_data_rows)
  next
    case False
    show ?thesis
      unfolding entry
      by (simp only: fst_check_data_other [OF False] visited_data_other [OF False]
            findings_append findings_check_raw Cons.IH)
         (simp add: comp_def)
  qed
qed



lemma findings_runSourceCheck:
  "findings (runSourceCheck nt mt isTTY width db) =
     concat (map (\<lambda>(ns, e). findings (check_tag nt False 0 ns 0 e)) (visited db))"
  by (simp add: runSourceCheck_def Let_def findings_append findings_check_data visited_data)





subsection \<open>The findings of a run, tag by tag\<close>

lemma tag_findings_check_tag:
  "findings (check_tag nt sp sz ns cnt entry) = tag_findings nt (ns, entry)"
  by (cases entry) (simp add: tag_findings_def findings_check_tag)

lemma tag_findings_unmatched:
  "nt ns tag = None \<Longrightarrow>
   tag_findings nt (ns, tag, tagLine) =
     [if length tag \<le> 2
      then (Info, context_of tag tagLine, ''Tag is too short, you should check it manually.'')
      else (Warn, context_of tag tagLine, ''Tag not found.'')]"
  by (simp add: tag_findings_def findings_check_tag)

lemma tag_findings_matched:
  "nt ns tag = Some (canonicalNs, canonicalTag) \<Longrightarrow>
   tag_findings nt (ns, tag, tagLine) =
     (if canonicalTag = tag then []
      else [(Warn, context_of tag tagLine,
             ''Tag renamed: => '' @ canonicalNs @ '':'' @ canonicalTag)])"
  by (simp add: tag_findings_def findings_check_tag)

lemma findings_run_by_tag:
  "findings (runSourceCheck nt mt isTTY width db) = concat (map (tag_findings nt) (visited db))"
proof -
  have "(\<lambda>(ns, e). findings (check_tag nt False 0 ns 0 e)) = tag_findings nt"
    by (rule ext) (simp add: tag_findings_def)
  then show ?thesis by (simp only: findings_runSourceCheck)
qed

lemma findings_run_split:
  assumes "visited db = earlier @ v # later"
  shows "findings (runSourceCheck nt mt isTTY width db) =
           concat (map (tag_findings nt) earlier) @ tag_findings nt v
           @ concat (map (tag_findings nt) later)"
  by (simp add: findings_run_by_tag assms)

lemma example_visited:
  "visited example_db =
     [(''female'', ''ok'', example_line ''female'' 4),
      (''female'', ''zz'', example_line ''female'' 5),
      (''female'', ''xx'', example_line ''female'' 6),
      (''female'', ''shared'', example_line ''female'' 7),
      (''female'', ''unknown'', example_line ''female'' 8)]"
  by (simp add: visited_def visited_data_def example_db_def)

lemma example_tag_findings:
  "tag_findings example_normalizeTag (''female'', ''ok'', example_line ''female'' 4) = []"
  "tag_findings example_normalizeTag (''female'', ''zz'', example_line ''female'' 5) =
     [(Info, context_of ''zz'' (example_line ''female'' 5),
       ''Tag is too short, you should check it manually.'')]"
  "tag_findings example_normalizeTag (''female'', ''xx'', example_line ''female'' 6) =
     [(Warn, context_of ''xx'' (example_line ''female'' 6), ''Tag renamed: => female:xy'')]"
  "tag_findings example_normalizeTag (''female'', ''shared'', example_line ''female'' 7) = []"
  "tag_findings example_normalizeTag (''female'', ''unknown'', example_line ''female'' 8) =
     [(Warn, context_of ''unknown'' (example_line ''female'' 8), ''Tag not found.'')]"
  by (simp_all add: tag_findings_def findings_check_tag example_normalizeTag_def)

text \<open>
  C1: the findings of a run are made tag by tag, in the order in which the loops reach
  the tag lines. For every tag line reached whose tag normalization does not match, the
  run makes, at the place of that tag line, exactly one logger call: \<open>info\<close> with the
  "too short" message when the tag has at most two characters, \<open>warn\<close> with
  "Tag not found." when it has more; never the other way round.
\<close>

theorem C1_unmatched_tag:
  assumes "visited db = earlier @ (ns, tag, tagLine) # later"
    and "normalizeTag ns tag = None"
  shows "findings (runSourceCheck normalizeTag masterTags isTTY width db) =
           concat (map (tag_findings normalizeTag) earlier)
           @ [if length tag \<le> 2
              then (Info, context_of tag tagLine,
                    ''Tag is too short, you should check it manually.'')
              else (Warn, context_of tag tagLine, ''Tag not found.'')]
           @ concat (map (tag_findings normalizeTag) later)"
  using assms(2) by (simp add: findings_run_split [OF assms(1)] tag_findings_unmatched)

theorem C1_unmatched_tag_witness:
  "visited example_db =
     [(''female'', ''ok'', example_line ''female'' 4)]
     @ (''female'', ''zz'', example_line ''female'' 5)
     # [(''female'', ''xx'', example_line ''female'' 6),
        (''female'', ''shared'', example_line ''female'' 7),
        (''female'', ''unknown'', example_line ''female'' 8)]
   \<and> example_normalizeTag ''female'' ''zz'' = None
   \<and> visited example_db =
     [(''female'', ''ok'', example_line ''female'' 4),
      (''female'', ''zz'', example_line ''female'' 5),
      (''female'', ''xx'', example_line ''female'' 6),
      (''female'', ''shared'', example_line ''female'' 7)]
     @ (''female'', ''unknown'', example_line ''female'' 8) # []
   \<and> example_normalizeTag ''female'' ''unknown'' = None
   \<and> findings (runSourceCheck example_normalizeTag [''ok'', ''xy''] True 80 example_db) =
       [] @ [(Info, context_of ''zz'' (example_line ''female'' 5),
              ''Tag is too short, you should check it manually.'')]
       @ [(Warn, context_of ''xx'' (example_line ''female'' 6), ''Tag renamed: => female:xy''),
          (Warn, context_of ''unknown'' (example_line ''female'' 8), ''Tag not found.'')]
   \<and> findings (runSourceCheck example_normalizeTag [''ok'', ''xy''] True 80 example_db) =
       [(Info, context_of ''zz'' (example_line ''female'' 5),
         ''Tag is too short, you should check it manually.''),
        (Warn, context_of ''xx'' (example_line ''female'' 6), ''Tag renamed: => female:xy'')]
       @ [(Warn, context_of ''unknown'' (example_line ''female'' 8), ''Tag not found.'')] @ []"
proof -
  have v1: "visited example_db =
     [(''female'', ''ok'', example_line ''female'' 4)]
     @ (''female'', ''zz'', example_line ''female'' 5)
     # [(''female'', ''xx'', example_line ''female'' 6),
        (''female'', ''shared'', example_line ''female'' 7),
        (''female'', ''unknown'', example_line ''female'' 8)]"
    by (simp add: example_visited)
  have v2: "visited example_db =
     [(''female'', ''ok'', example_line ''female'' 4),
      (''female'', ''zz'', example_line ''female'' 5),
      (''female'', ''xx'', example_line ''female'' 6),
      (''female'', ''shared'', example_line ''female'' 7)]
     @ (''female'', ''unknown'', example_line ''female'' 8) # []"
    by (simp add: example_visited)
  have a: "example_normalizeTag ''female'' ''zz'' = None"
    by (simp add: example_normalizeTag_def)
  have b: "example_normalizeTag ''female'' ''unknown'' = None"
    by (simp add: example_normalizeTag_def)
  note t1 = C1_unmatched_tag [where db = example_db and normalizeTag = example_normalizeTag
      and earlier = "[(''female'', ''ok'', example_line ''female'' 4)]"
      and ns = "''female''" and tag = "''zz''" and tagLine = "example_line ''female'' 5"
      and later = "[(''female'', ''xx'', example_line ''female'' 6), (''female'', ''shared'', example_line ''female'' 7), (''female'', ''unknown'', example_line ''female'' 8)]"
      and masterTags = "[''ok'', ''xy'']" and isTTY = True and width = 80]
  note t2 = C1_unmatched_tag [where db = example_db and normalizeTag = example_normalizeTag
      and earlier = "[(''female'', ''ok'', example_line ''female'' 4), (''female'', ''zz'', example_line ''female'' 5), (''female'', ''xx'', example_line ''female'' 6), (''female'', ''shared'', example_line ''female'' 7)]"
      and ns = "''female''" and tag = "''unknown''" and tagLine = "example_line ''female'' 8"
      and later = "[]"
      and masterTags = "[''ok'', ''xy'']" and isTTY = True and width = 80]
  show ?thesis
    using v1 a v2 b t1 t2 by (simp add: example_tag_findings)
qed

text \<open>
  C2: for every tag line reached whose tag normalization matches, the run makes, at the
  place of that tag line, exactly one logger call when the canonical tag name differs
  from the stored tag: \<open>warn\<close> with a message that names the replacement as canonical
  namespace, colon, canonical tag. When the names are equal it makes no logger call for
  that tag line.
\<close>

theorem C2_matched_tag:
  assumes "visited db = earlier @ (ns, tag, tagLine) # later"
    and "normalizeTag ns tag = Some (canonicalNs, canonicalTag)"
  shows "findings (runSourceCheck normalizeTag masterTags isTTY width db) =
           concat (map (tag_findings normalizeTag) earlier)
           @ (if canonicalTag = tag then []
              else [(Warn, context_of tag tagLine,
                     ''Tag renamed: => '' @ canonicalNs @ '':'' @ canonicalTag)])
           @ concat (map (tag_findings normalizeTag) later)"
  using assms(2) by (simp add: findings_run_split [OF assms(1)] tag_findings_matched)

theorem C2_matched_tag_witness:
  "visited example_db =
     [(''female'', ''ok'', example_line ''female'' 4),
      (''female'', ''zz'', example_line ''female'' 5)]
     @ (''female'', ''xx'', example_line ''female'' 6)
     # [(''female'', ''shared'', example_line ''female'' 7),
        (''female'', ''unknown'', example_line ''female'' 8)]
   \<and> example_normalizeTag ''female'' ''xx'' = Some (''female'', ''xy'')
   \<and> visited example_db =
     [] @ (''female'', ''ok'', example_line ''female'' 4)
     # [(''female'', ''zz'', example_line ''female'' 5),
        (''female'', ''xx'', example_line ''female'' 6),
        (''female'', ''shared'', example_line ''female'' 7),
        (''female'', ''unknown'', example_line ''female'' 8)]
   \<and> example_normalizeTag ''female'' ''ok'' = Some (''female'', ''ok'')
   \<and> findings (runSourceCheck example_normalizeTag [''ok'', ''xy''] False 0 example_db) =
       [(Info, context_of ''zz'' (example_line ''female'' 5),
         ''Tag is too short, you should check it manually.'')]
       @ [(Warn, context_of ''xx'' (example_line ''female'' 6), ''Tag renamed: => female:xy'')]
       @ [(Warn, context_of ''unknown'' (example_line ''female'' 8), ''Tag not found.'')]
   \<and> findings (runSourceCheck example_normalizeTag [''ok'', ''xy''] False 0 example_db) =
       [] @ [] @
       [(Info, context_of ''zz'' (example_line ''female'' 5),
         ''Tag is too short, you should check it manually.''),
        (Warn, context_of ''xx'' (example_line ''female'' 6), ''Tag renamed: => female:xy''),
        (Warn, context_of ''unknown'' (example_line ''female'' 8), ''Tag not found.'')]"
proof -
  have v1: "visited example_db =
     [(''female'', ''ok'', example_line ''female'' 4),
      (''female'', ''zz'', example_line ''female'' 5)]
     @ (''female'', ''xx'', example_line ''female'' 6)
     # [(''female'', ''shared'', example_line ''female'' 7),
        (''female'', ''unknown'', example_line ''female'' 8)]"
    by (simp add: example_visited)
  have v2: "visited example_db =
     [] @ (''female'', ''ok'', example_line ''female'' 4)
     # [(''female'', ''zz'', example_line ''female'' 5),
        (''female'', ''xx'', example_line ''female'' 6),
        (''female'', ''shared'', example_line ''female'' 7),
        (''female'', ''unknown'', example_line ''female'' 8)]"
    by (simp add: example_visited)
  have a: "example_normalizeTag ''female'' ''xx'' = Some (''female'', ''xy'')"
    by (simp add: example_normalizeTag_def)
  have b: "example_normalizeTag ''female'' ''ok'' = Some (''female'', ''ok'')"
    by (simp add: example_normalizeTag_def)
  note t1 = C2_matched_tag [where db = example_db and normalizeTag = example_normalizeTag
      and earlier = "[(''female'', ''ok'', example_line ''female'' 4), (''female'', ''zz'', example_line ''female'' 5)]"
      and ns = "''female''" and tag = "''xx''" and tagLine = "example_line ''female'' 6"
      and later = "[(''female'', ''shared'', example_line ''female'' 7), (''female'', ''unknown'', example_line ''female'' 8)]"
      and canonicalNs = "''female''" and canonicalTag = "''xy''"
      and masterTags = "[''ok'', ''xy'']" and isTTY = False and width = 0]
  note t2 = C2_matched_tag [where db = example_db and normalizeTag = example_normalizeTag
      and earlier = "[]"
      and ns = "''female''" and tag = "''ok''" and tagLine = "example_line ''female'' 4"
      and later = "[(''female'', ''zz'', example_line ''female'' 5), (''female'', ''xx'', example_line ''female'' 6), (''female'', ''shared'', example_line ''female'' 7), (''female'', ''unknown'', example_line ''female'' 8)]"
      and canonicalNs = "''female''" and canonicalTag = "''ok''"
      and masterTags = "[''ok'', ''xy'']" and isTTY = False and width = 0]
  show ?thesis
    using v1 a v2 b t1 t2 by (simp add: example_tag_findings)
qed

subsection \<open>The exit code\<close>

lemma exitCode_log:
  "exitCode (log Failure lg k c m p) =
     (if lookup_flag (setFailed lg) k then Some Failure else exitCode p)"
  by (simp add: log_def Let_def)

lemma annotations_log:
  "annotations (log Failure lg k c m p) = annotations p @ [annotation_of (k, c, m)]"
  by (simp add: log_def Let_def annotation_of_def)

lemma annotations_deliver:
  "annotations (deliver Failure lg tr p) = annotations p @ map annotation_of (findings tr)"
  by (induction Failure lg tr p rule: deliver.induct) (simp_all add: annotations_log)

lemma exitCode_deliver:
  "exitCode (deliver Failure lg tr p) =
     (if \<exists>f \<in> set (findings tr). lookup_flag (setFailed lg) (fst f)
      then Some Failure else exitCode p)"
  by (induction Failure lg tr p rule: deliver.induct) (simp_all add: exitCode_log)

text \<open>
  C4: logging at a severity at or above the threshold assigns the failure value, which
  is not zero, to the exit code; logging below the threshold leaves the exit code as it
  was. The logger has no other exit: a run delivers every finding as an annotation
  whatever the threshold, and a process that starts with the exit code unset ends with a
  non-zero status exactly when some finding is at or above the threshold; for a run whose
  findings are all warnings, exactly when the threshold is \<open>warn\<close> or \<open>info\<close>.
\<close>

theorem C4_deferred_failure:
  assumes "Failure \<noteq> 0"
  shows
    "(at_or_above t k \<longrightarrow>
        exitCode (log Failure (new_ActionLogger (Some t)) k c m p) = Some Failure
        \<and> exit_status (log Failure (new_ActionLogger (Some t)) k c m p) \<noteq> 0)
     \<and> (\<not> at_or_above t k \<longrightarrow>
        exitCode (log Failure (new_ActionLogger (Some t)) k c m p) = exitCode p)
     \<and> annotations (deliver Failure (new_ActionLogger (Some t)) tr p)
        = annotations p @ map annotation_of (findings tr)
     \<and> (exitCode p = None \<longrightarrow>
        (exit_status (deliver Failure (new_ActionLogger (Some t)) tr p) \<noteq> 0)
        = (\<exists>f \<in> set (findings tr). at_or_above t (fst f)))
     \<and> (exitCode p = None \<and> findings tr \<noteq> [] \<and> (\<forall>f \<in> set (findings tr). fst f = Warn) \<longrightarrow>
        (exit_status (deliver Failure (new_ActionLogger (Some t)) tr p) \<noteq> 0)
        = (t = Warn \<or> t = Info))"
proof -
  let ?lg = "new_ActionLogger (Some t)"
  have flag: "\<And>s. lookup_flag (setFailed ?lg) s = at_or_above t s"
    by (rule setFailed_new_ActionLogger)
  have one: "at_or_above t k \<longrightarrow>
        exitCode (log Failure ?lg k c m p) = Some Failure
        \<and> exit_status (log Failure ?lg k c m p) \<noteq> 0"
    using assms by (simp add: exitCode_log flag exit_status_def)
  have two: "\<not> at_or_above t k \<longrightarrow> exitCode (log Failure ?lg k c m p) = exitCode p"
    by (simp add: exitCode_log flag)
  have three: "annotations (deliver Failure ?lg tr p)
        = annotations p @ map annotation_of (findings tr)"
    by (rule annotations_deliver)
  have four: "exitCode p = None \<longrightarrow>
        (exit_status (deliver Failure ?lg tr p) \<noteq> 0)
        = (\<exists>f \<in> set (findings tr). at_or_above t (fst f))"
    using assms by (simp add: exitCode_deliver flag exit_status_def)
  have five: "exitCode p = None \<and> findings tr \<noteq> [] \<and> (\<forall>f \<in> set (findings tr). fst f = Warn) \<longrightarrow>
        (exit_status (deliver Failure ?lg tr p) \<noteq> 0) = (t = Warn \<or> t = Info)"
  proof
    assume h: "exitCode p = None \<and> findings tr \<noteq> [] \<and> (\<forall>f \<in> set (findings tr). fst f = Warn)"
    then obtain f where f: "f \<in> set (findings tr)" by (cases "findings tr") auto
    have "(\<exists>f \<in> set (findings tr). at_or_above t (fst f)) = at_or_above t Warn"
      using h f by metis
    moreover have "at_or_above t Warn = (t = Warn \<or> t = Info)"
      by (cases t) (simp_all add: at_or_above_def)
    ultimately show "(exit_status (deliver Failure ?lg tr p) \<noteq> 0) = (t = Warn \<or> t = Info)"
      using four h by simp
  qed
  from one two three four five show ?thesis by blast
qed

lemma example_warn_findings:
  "findings (runSourceCheck example_normalizeTag [''ok'', ''xy''] False 0 example_db_warn) =
     [(Warn, context_of ''xx'' (example_line ''female'' 4), ''Tag renamed: => female:xy''),
      (Warn, context_of ''unknown'' (example_line ''female'' 5), ''Tag not found.'')]"
  by (simp add: findings_runSourceCheck visited_def visited_data_def example_db_warn_def findings_check_tag
        example_normalizeTag_def)

theorem C4_deferred_failure_witness:
  "(1::int) \<noteq> 0
   \<and> at_or_above Warn Warn
   \<and> exitCode (log 1 (new_ActionLogger (Some Warn)) Warn
        (context_of ''xx'' (example_line ''female'' 4)) ''Tag not found.'' example_process) = Some 1
   \<and> \<not> at_or_above Error Warn
   \<and> exitCode (log 1 (new_ActionLogger (Some Error)) Warn
        (context_of ''xx'' (example_line ''female'' 4)) ''Tag not found.'' example_process) = None
   \<and> exitCode example_process = None
   \<and> findings (runSourceCheck example_normalizeTag [''ok'', ''xy''] False 0 example_db_warn) \<noteq> []
   \<and> exit_status (deliver 1 (new_ActionLogger (Some Warn))
        (runSourceCheck example_normalizeTag [''ok'', ''xy''] False 0 example_db_warn)
        example_process) \<noteq> 0
   \<and> exit_status (deliver 1 (new_ActionLogger (Some Error))
        (runSourceCheck example_normalizeTag [''ok'', ''xy''] False 0 example_db_warn)
        example_process) = 0
   \<and> length (annotations (deliver 1 (new_ActionLogger (Some Warn))
        (runSourceCheck example_normalizeTag [''ok'', ''xy''] False 0 example_db_warn)
        example_process)) = 2"
proof -
  have f: "(1::int) \<noteq> 0" by simp
  have a: "at_or_above Warn Warn" "\<not> at_or_above Error Warn"
    by (simp_all add: at_or_above_def)
  have p: "exitCode example_process = None" "annotations example_process = []"
    by (simp_all add: example_process_def)
  note w = C4_deferred_failure [OF f, where t = Warn and k = Warn
      and c = "context_of ''xx'' (example_line ''female'' 4)" and m = "''Tag not found.''"
      and p = example_process
      and tr = "runSourceCheck example_normalizeTag [''ok'', ''xy''] False 0 example_db_warn"]
  note e = C4_deferred_failure [OF f, where t = Error and k = Warn
      and c = "context_of ''xx'' (example_line ''female'' 4)" and m = "''Tag not found.''"
      and p = example_process
      and tr = "runSourceCheck example_normalizeTag [''ok'', ''xy''] False 0 example_db_warn"]
  show ?thesis
    using f a p w e by (simp add: example_warn_findings)
qed


subsection \<open>Awaited computations\<close>

lemma io_bind_Inr:
  "(io_bind m f w = (Inr y, w')) = (\<exists>x w1. m w = (Inr x, w1) \<and> f x w1 = (Inr y, w'))"
  by (auto simp: io_bind_def split: prod.splits sum.splits)

lemma console_log_Inr:
  "(console_log l w = (Inr u, w')) = (w' = w\<lparr>console := console w @ [l]\<rparr>)"
  by (auto simp: console_log_def)

lemma writeFile_Inr:
  "(writeFile env file c w = (Inr u, w')) =
     (\<not> refuses env (WriteFile (cwd w) file) \<and> w' = w\<lparr>files := (files w)((cwd w, file) \<mapsto> c)\<rparr>)"
  by (auto simp: writeFile_def)

lemma logFile_Inr:
  "(logFile env file w = (Inr u, w')) =
     (\<not> refuses env (Stat (cwd w) file)
      \<and> (\<exists>c. files w (cwd w, file) = Some c \<and> w' = w\<lparr>console := console w @ [Created file c]\<rparr>))"
  by (auto simp: logFile_def stat_def io_bind_Inr console_log_Inr split: option.splits)

lemma createWriteStream_Inr:
  "(createWriteStream env file w = (Inr h, w')) =
     (\<not> refuses env (OpenStream (cwd w) file) \<and> h = (cwd w, file)
      \<and> w' = w\<lparr>files := (files w)((cwd w, file) \<mapsto> TextContent [])\<rparr>)"
  by (auto simp: createWriteStream_def)

lemma jsonp_write_Inr:
  "(jsonp_write env h data w = (Inr u, w')) =
     (\<not> refuses env (StreamWrite (fst h) (snd h) data)
      \<and> w' = w\<lparr>files := (files w)(h \<mapsto> TextContent (text_of (files w h) @ data))\<rparr>)"
  by (auto simp: jsonp_write_def)

lemma stream_end_Inr:
  "(stream_end env h w = (Inr u, w')) = (\<not> refuses env (StreamEnd (fst h) (snd h)) \<and> w' = w)"
  by (auto simp: stream_end_def)

lemma save_Inr:
  assumes "save env d k w = (Inr u, w')"
  shows "cwd w' = cwd w \<and> directories w' = directories w
    \<and> files w' = (files w)
        ((cwd w, ''db.'' @ type_name k @ ''.json'') \<mapsto> TextContent (stringify env d),
         (cwd w, ''db.'' @ type_name k @ ''.json.gz'') \<mapsto> BinaryContent (gzip env (stringify env d)),
         (cwd w, ''db.'' @ type_name k @ ''.js'') \<mapsto>
            TextContent (script_form k (base64 env (gzip env (stringify env d))) (pako env)))"
  using assms
  by (auto simp: save_def Let_def io_bind_Inr writeFile_Inr logFile_Inr createWriteStream_Inr
        jsonp_write_Inr stream_end_Inr script_form_def script_head_def)


lemma fst_snd_Inr: "fst r = Inr () \<Longrightarrow> r = (Inr (), snd r)"
  by (cases r) simp

lemma fst_Inr_obtain: "fst r = Inr () \<Longrightarrow> \<exists>w'. r = (Inr (), w')"
  by (cases r) simp

lemma js_not_gz: "''db.'' @ type_name k @ ''.js'' \<noteq> ''db.'' @ type_name k' @ ''.json.gz''"
  by (cases k; cases k') simp_all

text \<open>
  C6: when \<open>save\<close> returns, the file \<open>db.<k>.js\<close> holds exactly the opening text with
  the loader name of the kind, the base64 encoding of the bytes that are in
  \<open>db.<k>.json.gz\<close>, the text \<open>'};\<close>, the decompressor's source as it is, and the
  closing \<open>})();\<close>.
\<close>

theorem C6_script_artifact:
  assumes "fst (save env data type w) = Inr ()"
  shows "files (snd (save env data type w)) (cwd w, ''db.'' @ type_name type @ ''.json.gz'')
           = Some (BinaryContent (gzip env (stringify env data)))
       \<and> files (snd (save env data type w)) (cwd w, ''db.'' @ type_name type @ ''.js'')
           = Some (TextContent
               (''(function(){var d={c:'' @ apostrophe @ ''load_ehtagtranslation_db_''
                  @ type_name type @ apostrophe @ '',d:'' @ apostrophe
                  @ base64 env (gzip env (stringify env data))
                  @ apostrophe @ ''};'' @ pako env @ ''})();''))"
proof -
  from assms have "save env data type w = (Inr (), snd (save env data type w))"
    by (rule fst_snd_Inr)
  from save_Inr [OF this] show ?thesis
    using js_not_gz [of type type]
    by (simp add: script_form_def script_head_def)
qed

lemma example_save_full:
  "fst (save example_env ''data of full'' Full example_world) = Inr ()"
  by (simp add: save_def Let_def io_bind_def writeFile_def logFile_def stat_def
        console_log_def createWriteStream_def jsonp_write_def stream_end_def
        example_env_def example_world_def)

theorem C6_script_artifact_witness:
  "fst (save example_env ''data of full'' Full example_world) = Inr ()
   \<and> files (snd (save example_env ''data of full'' Full example_world))
        (''/repo'', ''db.full.json.gz'')
       = Some (BinaryContent (example_gzip ''data of full''))
   \<and> files (snd (save example_env ''data of full'' Full example_world))
        (''/repo'', ''db.full.js'')
       = Some (TextContent
           (''(function(){var d={c:'' @ apostrophe @ ''load_ehtagtranslation_db_full''
              @ apostrophe @ '',d:'' @ apostrophe @ example_base64 (example_gzip ''data of full'')
              @ apostrophe @ ''};function inflate(){}})();''))"
  using example_save_full C6_script_artifact [OF example_save_full]
  by (simp add: example_env_def example_world_def)


lemma type_name_eq_iff: "(type_name k = type_name k') = (k = k')"
  by (cases k; cases k') simp_all

lemma suffix_js_gz: "type_name k @ ''.js'' \<noteq> type_name k' @ ''.json.gz''"
  by (cases k; cases k') simp_all

lemma suffix_js_json: "type_name k @ ''.js'' \<noteq> type_name k' @ ''.json''"
  by (cases k; cases k') simp_all

lemma suffix_gz_json: "type_name k @ ''.json.gz'' \<noteq> type_name k' @ ''.json''"
  by (cases k; cases k') simp_all

lemmas file_names =
  type_name_eq_iff suffix_js_gz suffix_js_json suffix_gz_json
  suffix_js_gz [symmetric] suffix_js_json [symmetric] suffix_gz_json [symmetric]

lemma save_establishes:
  assumes "save env d k w = (Inr u, w')"
  shows "artifacts env d k (cwd w) (files w')"
  using save_Inr [OF assms] by (simp add: artifacts_def file_names)

lemma save_preserves:
  assumes "save env d' k' w = (Inr u, w')" and "k \<noteq> k'"
    and "artifacts env d k (cwd w) (files w)"
  shows "artifacts env d k (cwd w) (files w')"
  using save_Inr [OF assms(1)] assms(2,3) by (simp add: artifacts_def file_names)

lemma save_all_Inr:
  assumes "save_all env data ks w = (Inr u, w')"
  shows "cwd w' = cwd w \<and> directories w' = directories w
     \<and> (k \<in> set ks \<longrightarrow> artifacts env (data k) k (cwd w) (files w'))
     \<and> (artifacts env (data k) k (cwd w) (files w) \<longrightarrow> artifacts env (data k) k (cwd w) (files w'))"
  using assms
proof (induction ks arbitrary: w)
  case Nil
  then show ?case by (simp add: io_return_def)
next
  case (Cons k' ks)
  from Cons.prems obtain w1 where
    s: "save env (data k') k' w = (Inr (), w1)" and r: "save_all env data ks w1 = (Inr u, w')"
    by (auto simp: io_bind_Inr)
  from save_Inr [OF s] have c: "cwd w1 = cwd w" and d: "directories w1 = directories w"
    by simp_all
  note ih = Cons.IH [OF r, unfolded c d]
  have est: "artifacts env (data k') k' (cwd w) (files w1)"
    by (rule save_establishes [OF s])
  have pres: "artifacts env (data k) k (cwd w) (files w) \<Longrightarrow> artifacts env (data k) k (cwd w) (files w1)"
    using est save_preserves [OF s] by (cases "k = k'") simp_all
  show ?case using ih est pres by auto
qed

lemma all_types: "k \<in> set types"
  by (cases k) (simp_all add: types_def)

lemma chdir_Inr:
  "(chdir env dir w = (Inr u, w')) =
     (\<not> refuses env (Chdir dir) \<and> dir \<in> directories w \<and> w' = w\<lparr>cwd := dir\<rparr>)"
  by (auto simp: chdir_def)

lemma ensureDir_Inr:
  "(ensureDir env dir w = (Inr u, w')) =
     (\<not> refuses env (EnsureDir dir) \<and> w' = w\<lparr>directories := insert dir (directories w)\<rparr>)"
  by (auto simp: ensureDir_def)

lemma process_cwd_Inr: "(process_cwd w = (Inr x, w')) = (x = cwd w \<and> w' = w)"
  by (auto simp: process_cwd_def)

lemma createRelease_Inr:
  assumes "createRelease env db destination w = (Inr u, w')"
  shows "cwd w' = cwd w \<and> artifacts env (render env k) k destination (files w')"
proof -
  from assms obtain w1 w2 where
    s: "save_all env (render env) types w1 = (Inr (), w2)" and
    c1: "cwd w1 = destination" and
    f: "files w' = files w2" and c: "cwd w' = cwd w"
    unfolding createRelease_def Let_def
    by (auto simp: io_bind_Inr console_log_Inr process_cwd_Inr ensureDir_Inr chdir_Inr
          split: if_splits)
  from save_all_Inr [OF s, of k] all_types [of k] c1 f c show ?thesis by simp
qed


subsection \<open>The working directory\<close>

text \<open>The release build, with the operations that cannot fail carried out.\<close>

lemma createRelease_unfold:
  "createRelease env db destination w =
     (let w0 = w\<lparr>console := console w
                  @ [BuildingReleases, SourceLine (repoPath db), DestinationLine destination]\<rparr>;
          w1 = w0\<lparr>directories := insert destination (directories w)\<rparr>;
          w2 = w1\<lparr>cwd := destination,
                   console := console w1 @ [if isAction env then StartGroup ''files'' else EmptyLine]\<rparr>
      in if refuses env (EnsureDir destination)
         then (Inl (IoError (EnsureDir destination)), w0)
         else if refuses env (Chdir destination)
         then (Inl (IoError (Chdir destination)), w1)
         else (case save_all env (render env) types w2 of
                 (Inl e, w3) \<Rightarrow> (Inl e, w3)
               | (Inr u, w3) \<Rightarrow>
                   chdir env (cwd w)
                     (w3\<lparr>console := console w3 @ [if isAction env then EndGroup else EmptyLine]\<rparr>)))"
  by (simp add: createRelease_def Let_def io_bind_def console_log_def process_cwd_def
        ensureDir_def chdir_def split: prod.split sum.split)

lemma createRelease_cwd_success:
  assumes "fst (createRelease env db destination w) = Inr ()"
  shows "cwd (snd (createRelease env db destination w)) = cwd w"
proof -
  from assms have "createRelease env db destination w
      = (Inr (), snd (createRelease env db destination w))"
    by (rule fst_snd_Inr)
  from createRelease_Inr [OF this] show ?thesis by simp
qed

subsection \<open>Runs in which nothing is refused\<close>

lemma save_succeeds:
  assumes "\<And>op. \<not> refuses env op"
  shows "fst (save env d k w) = Inr ()"
  using assms
  by (simp add: save_def Let_def io_bind_def writeFile_def logFile_def stat_def
        console_log_def createWriteStream_def jsonp_write_def stream_end_def)

lemma save_all_succeeds:
  assumes "\<And>op. \<not> refuses env op"
  shows "fst (save_all env data ks w) = Inr ()"
proof (induction ks arbitrary: w)
  case Nil
  show ?case by (simp add: io_return_def)
next
  case (Cons k ks)
  from save_succeeds [OF assms, of "data k" k w]
  obtain w1 where "save env (data k) k w = (Inr (), w1)" using fst_Inr_obtain by blast
  with Cons.IH [of w1] show ?case by (simp add: io_bind_def)
qed

lemma createRelease_succeeds:
  assumes "\<And>op. \<not> refuses env op" and "cwd w \<in> directories w"
  shows "fst (createRelease env db destination w) = Inr ()"
proof -
  let ?w2 = "w\<lparr>console := console w
                  @ [BuildingReleases, SourceLine (repoPath db), DestinationLine destination],
               directories := insert destination (directories w),
               cwd := destination,
               console := console w
                  @ [BuildingReleases, SourceLine (repoPath db), DestinationLine destination]
                  @ [if isAction env then StartGroup ''files'' else EmptyLine]\<rparr>"
  from save_all_succeeds [OF assms(1), of "render env" types ?w2]
  obtain w3 where sa: "save_all env (render env) types ?w2 = (Inr (), w3)"
    using fst_Inr_obtain by blast
  from save_all_Inr [OF sa, of Full]
  have "directories w3 = insert destination (directories w)"
    by simp
  with assms sa show ?thesis
    by (simp add: createRelease_unfold Let_def chdir_def)
qed



lemma example_env_refuses: "\<not> refuses example_env op"
  by (simp add: example_env_def)

lemma example_release_succeeds:
  "fst (createRelease example_env example_db ''/out'' example_world) = Inr ()"
  by (rule createRelease_succeeds) (simp_all add: example_env_refuses example_world_def)

lemma example_release_denied:
  "createRelease example_env_denied example_db ''/out'' example_world =
     (Inl (IoError (WriteFile ''/out'' ''db.full.json'')),
      example_world\<lparr>console := [BuildingReleases, SourceLine ''.'', DestinationLine ''/out'', EmptyLine],
                     directories := {''/out'', ''/repo''}, cwd := ''/out''\<rparr>)"
  by (simp add: createRelease_unfold Let_def types_def save_def io_bind_def writeFile_def
        example_env_denied_def example_env_def example_world_def example_db_def)

text \<open>
  C8: a release build that returns has restored the working directory it started in
  (\<open>createRelease_cwd_success\<close>), but the restoration is the last statement of the
  function and nothing guards it. On a system that refuses the write of \<open>db.full.json\<close>,
  the build that starts in \<open>/repo\<close> changes into \<open>/out\<close> and ends with the error of that
  write while the working directory is still \<open>/out\<close>: the prior working directory is
  not restored when packaging fails.
\<close>

theorem C8_cwd_not_restored_on_failure:
  "cwd example_world = ''/repo''
   \<and> fst (createRelease example_env example_db ''/out'' example_world) = Inr ()
   \<and> cwd (snd (createRelease example_env example_db ''/out'' example_world)) = ''/repo''
   \<and> fst (createRelease example_env_denied example_db ''/out'' example_world)
       = Inl (IoError (WriteFile ''/out'' ''db.full.json''))
   \<and> cwd (snd (createRelease example_env_denied example_db ''/out'' example_world)) = ''/out''
   \<and> cwd (snd (createRelease example_env_denied example_db ''/out'' example_world))
       \<noteq> cwd example_world"
proof -
  have c: "cwd example_world = ''/repo''" by (simp add: example_world_def)
  have s: "cwd (snd (createRelease example_env example_db ''/out'' example_world)) = ''/repo''"
    using createRelease_cwd_success [OF example_release_succeeds] c by simp
  have d: "fst (createRelease example_env_denied example_db ''/out'' example_world)
       = Inl (IoError (WriteFile ''/out'' ''db.full.json''))"
    "cwd (snd (createRelease example_env_denied example_db ''/out'' example_world)) = ''/out''"
    by (simp_all add: example_release_denied)
  from c s d example_release_succeeds show ?thesis by simp
qed

subsection \<open>The round trip\<close>

lemma embedded_payload_script_form:
  assumes "CHR 0x27 \<notin> set encoded"
  shows "embedded_payload k (script_form k encoded decompressor) = encoded"
proof -
  have "takeWhile (\<lambda>c. c \<noteq> CHR 0x27) (encoded @ apostrophe @ ''};'' @ decompressor @ ''})();'')
        = encoded"
    using assms by (auto simp: takeWhile_tail takeWhile_eq_all_conv apostrophe_def)
  then show ?thesis
    by (simp add: embedded_payload_def script_form_def)
qed

text \<open>
  C7: after a release build that returns, for every kind \<open>k\<close> the file \<open>db.<k>.json\<close>
  holds the JSON text of the rendered data, decompressing the bytes of \<open>db.<k>.json.gz\<close>
  yields that text, and so does decoding and decompressing the payload embedded in
  \<open>db.<k>.js\<close>. The compressor and the encoder are libraries outside the program; the
  statement is for every decompressor and decoder that invert them, with an encoding that
  contains no apostrophe.
\<close>

theorem C7_round_trip:
  assumes "fst (createRelease env db destination w) = Inr ()"
    and "\<And>s. inflate (gzip env s) = Some s"
    and "\<And>b. decode (base64 env b) = Some b"
    and "\<And>b. CHR 0x27 \<notin> set (base64 env b)"
  shows "files (snd (createRelease env db destination w))
           (destination, ''db.'' @ type_name k @ ''.json'')
           = Some (TextContent (stringify env (render env k)))
     \<and> (\<exists>gz. files (snd (createRelease env db destination w))
                (destination, ''db.'' @ type_name k @ ''.json.gz'') = Some (BinaryContent gz)
             \<and> inflate gz = Some (stringify env (render env k)))
     \<and> (\<exists>script. files (snd (createRelease env db destination w))
                (destination, ''db.'' @ type_name k @ ''.js'') = Some (TextContent script)
             \<and> Option.bind (decode (embedded_payload k script)) inflate
                 = Some (stringify env (render env k)))"
proof -
  from assms(1) have "createRelease env db destination w
      = (Inr (), snd (createRelease env db destination w))"
    by (rule fst_snd_Inr)
  from createRelease_Inr [OF this, of k]
  have a: "artifacts env (render env k) k destination
             (files (snd (createRelease env db destination w)))"
    by simp
  let ?json = "stringify env (render env k)"
  have "Option.bind (decode (embedded_payload k
            (script_form k (base64 env (gzip env ?json)) (pako env)))) inflate = Some ?json"
    by (simp add: embedded_payload_script_form assms(2,3,4))
  with a assms(2) show ?thesis
    by (simp add: artifacts_def)
qed

lemma example_inflate_gzip: "example_inflate (example_gzip s) = Some s"
proof -
  have "\<And>c. char_of (unat (of_nat (of_char c) :: 8 word)) = c"
    by (simp add: unat_of_nat take_bit_eq_mod)
  then show ?thesis
    by (simp add: example_inflate_def example_gzip_def comp_def)
qed

lemma letter_value:
  assumes "d < 16"
  shows "of_char (char_of (97 + d) :: char) - 97 = (d::nat)"
proof -
  have "of_char (char_of (97 + d) :: char) = (97 + d) mod 256"
    by (simp only: of_char_of)
  also have "\<dots> = 97 + d" using assms by (intro mod_less) linarith
  finally show ?thesis by linarith
qed

lemma letter_not_apostrophe:
  assumes "(d::nat) < 16"
  shows "char_of (97 + d) \<noteq> CHR 0x27"
proof
  assume e: "char_of (97 + d) = CHR 0x27"
  have "(of_char (char_of (97 + d) :: char) :: nat) = (97 + d) mod 256"
    by (simp only: of_char_of)
  also have "\<dots> = 97 + d" using assms by (intro mod_less) linarith
  finally have "(of_char (CHR 0x27) :: nat) = 97 + d" unfolding e .
  moreover have "(of_char (CHR 0x27) :: nat) = 39" by simp
  ultimately show False by linarith
qed

lemma byte_halves:
  fixes x :: "8 word"
  shows "unat x div 16 < 16" and "unat x mod 16 < 16"
proof -
  have "unat x < 2 ^ 8" using unsigned_less [of x] by simp
  then have "unat x < 256" by simp
  then show "unat x div 16 < 16" by simp
  show "unat x mod 16 < 16" by simp
qed

lemma example_decode_base64: "example_decode (example_base64 b) = Some b"
proof (induction b)
  case Nil
  show ?case by (simp add: example_base64_def)
next
  case (Cons x b)
  have "(of_char (char_of (97 + unat x div 16) :: char) - 97) * 16
        + (of_char (char_of (97 + unat x mod 16) :: char) - 97) = unat x div 16 * 16 + unat x mod 16"
    by (simp only: letter_value [OF byte_halves(1)] letter_value [OF byte_halves(2)])
  also have "\<dots> = unat x" by simp
  finally have v: "(of_char (char_of (97 + unat x div 16) :: char) - 97) * 16
        + (of_char (char_of (97 + unat x mod 16) :: char) - 97) = unat x" .
  have step: "example_base64 (x # b)
      = char_of (97 + unat x div 16) # char_of (97 + unat x mod 16) # example_base64 b"
    by (simp add: example_base64_def)
  show ?case
    unfolding step example_decode.simps Cons.IH v by simp
qed

lemma example_base64_no_apostrophe: "CHR 0x27 \<notin> set (example_base64 b)"
proof (induction b)
  case Nil
  show ?case by (simp add: example_base64_def)
next
  case (Cons x b)
  have step: "example_base64 (x # b)
      = char_of (97 + unat x div 16) # char_of (97 + unat x mod 16) # example_base64 b"
    by (simp add: example_base64_def)
  from letter_not_apostrophe [OF byte_halves(1), of x] letter_not_apostrophe [OF byte_halves(2), of x]
    Cons.IH
  show ?case unfolding step by (simp only: set_simps insert_iff) metis
qed

theorem C7_round_trip_witness:
  "fst (createRelease example_env example_db ''/out'' example_world) = Inr ()
   \<and> files (snd (createRelease example_env example_db ''/out'' example_world))
        (''/out'', ''db.html.json'') = Some (TextContent ''data of html'')
   \<and> (\<exists>gz. files (snd (createRelease example_env example_db ''/out'' example_world))
              (''/out'', ''db.html.json.gz'') = Some (BinaryContent gz)
           \<and> example_inflate gz = Some ''data of html'')
   \<and> (\<exists>script. files (snd (createRelease example_env example_db ''/out'' example_world))
              (''/out'', ''db.html.js'') = Some (TextContent script)
           \<and> Option.bind (example_decode (embedded_payload Html script)) example_inflate
               = Some ''data of html'')"
proof -
  have g: "\<And>s. example_inflate (gzip example_env s) = Some s"
    by (simp add: example_env_def example_inflate_gzip)
  have b: "\<And>b. example_decode (base64 example_env b) = Some b"
    by (simp add: example_env_def example_decode_base64)
  have q: "\<And>b. CHR 0x27 \<notin> set (base64 example_env b)"
    by (simp add: example_env_def example_base64_no_apostrophe)
  show ?thesis
    using example_release_succeeds
      C7_round_trip [where env = example_env and db = example_db and destination = "''/out''"
        and w = example_world and inflate = example_inflate and decode = example_decode
        and k = Html, OF example_release_succeeds g b q]
    by (simp add: example_env_def)
qed


end
